theory Spec2Isabelle
  imports Main
begin

section \<open>The AirShield background task scheduler\<close>

text \<open>
  A shallow embedding of \<^verbatim>\<open>backend/app/services/scheduler_service.py\<close>: the class
  \<^verbatim>\<open>SchedulerService\<close> with its task registry, its control operations, the executor
  \<^verbatim>\<open>_execute_task\<close> and the body of \<^verbatim>\<open>_scheduler_loop\<close>.

  Each coroutine is modelled as a function from the service's state to the new state
  and the returned value. A coroutine gives up control only at an \<^verbatim>\<open>await\<close>. The
  control operations have none, so each of them is a single step. The executor awaits
  the handler: it is modelled whole, for a handler during which nothing else runs, and
  in two halves, before and after the \<^verbatim>\<open>await\<close>, between which other calls may run.
\<close>

subsection \<open>Dates and durations of the Python runtime\<close>

text \<open>
  A naive \<^verbatim>\<open>datetime\<close> is the number of microseconds since 0001-01-01T00:00:00, and a
  \<^verbatim>\<open>timedelta\<close> is a number of microseconds. Both types are bounded in Python: a
  \<^verbatim>\<open>datetime\<close> lies between year 1 and year 9999, a \<^verbatim>\<open>timedelta\<close> has at most
  999999999 days in either direction, and leaving the range raises
  \<^verbatim>\<open>OverflowError\<close>.
\<close>

type_synonym datetime = int
type_synonym timedelta = int

datatype exc = HandlerError string | OverflowError

definition DATETIME_MAX :: datetime where
  "DATETIME_MAX = 3652059 * 86400 * 1000000 - 1"

definition TIMEDELTA_MAX_DAYS :: int where
  "TIMEDELTA_MAX_DAYS = 999999999"

definition timedelta_seconds :: "int \<Rightarrow> exc + timedelta" where
  "timedelta_seconds n =
     (if - TIMEDELTA_MAX_DAYS \<le> n div 86400 \<and> n div 86400 \<le> TIMEDELTA_MAX_DAYS
      then Inr (n * 1000000) else Inl OverflowError)"

definition timedelta_minutes :: "int \<Rightarrow> exc + timedelta" where
  "timedelta_minutes n = timedelta_seconds (n * 60)"

definition datetime_add :: "datetime \<Rightarrow> timedelta \<Rightarrow> exc + datetime" where
  "datetime_add d delta =
     (if 0 \<le> d + delta \<and> d + delta \<le> DATETIME_MAX then Inr (d + delta)
      else Inl OverflowError)"

text \<open>\<^verbatim>\<open>now + timedelta(...)\<close>: the duration is built first, then added.\<close>

definition plus_timedelta :: "datetime \<Rightarrow> exc + timedelta \<Rightarrow> exc + datetime" where
  "plus_timedelta d td = (case td of Inl e \<Rightarrow> Inl e | Inr delta \<Rightarrow> datetime_add d delta)"

subsection \<open>Task records\<close>

datatype TaskStatus = PENDING | RUNNING | COMPLETED | FAILED | CANCELLED

datatype TaskPriority = LOW | NORMAL | HIGH | URGENT

text \<open>The values a handler returns, as far as the scheduler stores them.\<close>

datatype pyval = PyNone | PyInt int | PyStr string | PyDict "(string \<times> pyval) list"

text \<open>
  A handler is a reference to a coroutine function. The scheduler never looks inside
  it, so a reference is a number.
\<close>

type_synonym handler = nat

text \<open>
  The dictionary built by \<^verbatim>\<open>schedule_task\<close>. The key \<^verbatim>\<open>last_error\<close> is absent until
  the executor writes it, which is \<open>None\<close> here. For an exception raised by the handler
  \<^verbatim>\<open>last_error\<close> is \<^verbatim>\<open>str(e)\<close>; the text of the runtime's own \<^verbatim>\<open>OverflowError\<close> is
  not modelled.
\<close>

record task =
  task_id :: string
  handler :: handler
  next_run :: datetime
  interval_seconds :: "int option"
  max_runs :: "int option"
  run_count :: int
  priority :: TaskPriority
  status :: TaskStatus
  created_at :: datetime
  last_run :: "datetime option"
  last_result :: pyval
  last_error :: "exc option"

text \<open>
  \<^verbatim>\<open>self.tasks\<close> is a dictionary that is iterated in insertion order: an association
  list. \<^verbatim>\<open>self.task_handlers\<close> is only ever indexed: a map.
\<close>

record scheduler =
  tasks :: "(string \<times> task) list"
  task_handlers :: "string \<rightharpoonup> handler"
  is_running :: bool

definition init :: scheduler where
  "init = \<lparr>tasks = [], task_handlers = Map.empty, is_running = False\<rparr>"

text \<open>Mutating the dictionary stored under one key, in place.\<close>

fun update_task :: "string \<Rightarrow> (task \<Rightarrow> task) \<Rightarrow> (string \<times> task) list \<Rightarrow> (string \<times> task) list" where
  "update_task k f [] = []"
| "update_task k f ((k', t) # rest) =
     (if k' = k then (k', f t) # update_task k f rest else (k', t) # update_task k f rest)"

subsection \<open>Control operations\<close>

text \<open>
  The first argument \<open>now\<close> is the reading of \<^verbatim>\<open>datetime.utcnow()\<close> inside the call,
  where the source takes one.
\<close>

definition schedule_task ::
  "datetime \<Rightarrow> string \<Rightarrow> handler \<Rightarrow> datetime \<Rightarrow> int option \<Rightarrow> int option \<Rightarrow> TaskPriority
     \<Rightarrow> scheduler \<Rightarrow> scheduler \<times> bool" where
  "schedule_task now tid h start_time iv mr pr s =
     (case map_of (tasks s) tid of
        Some _ \<Rightarrow> (s, False)
      | None \<Rightarrow>
          (s\<lparr>tasks := tasks s @
                [(tid, \<lparr>task_id = tid, handler = h, next_run = start_time,
                        interval_seconds = iv, max_runs = mr, run_count = 0,
                        priority = pr, status = PENDING, created_at = now,
                        last_run = None, last_result = PyNone, last_error = None\<rparr>)],
             task_handlers := (task_handlers s)(tid \<mapsto> h)\<rparr>, True))"

definition cancel_task :: "string \<Rightarrow> scheduler \<Rightarrow> scheduler \<times> bool" where
  "cancel_task tid s =
     (case map_of (tasks s) tid of
        None \<Rightarrow> (s, False)
      | Some _ \<Rightarrow>
          (s\<lparr>tasks := update_task tid (\<lambda>t. t\<lparr>status := CANCELLED\<rparr>) (tasks s),
             task_handlers := (task_handlers s)(tid := None)\<rparr>, True))"

definition pause_task :: "string \<Rightarrow> scheduler \<Rightarrow> scheduler \<times> bool" where
  "pause_task tid s =
     (case map_of (tasks s) tid of
        None \<Rightarrow> (s, False)
      | Some t \<Rightarrow>
          if status t = PENDING
          then (s\<lparr>tasks := update_task tid (\<lambda>t. t\<lparr>status := CANCELLED\<rparr>) (tasks s)\<rparr>, True)
          else (s, False))"

text \<open>
  \<^verbatim>\<open>resume_task\<close> writes the status first and computes the default start time after
  it; when that addition overflows, the handler of \<^verbatim>\<open>Exception\<close> returns \<^verbatim>\<open>False\<close>
  with the status already written.
\<close>

definition resume_task :: "datetime \<Rightarrow> string \<Rightarrow> datetime option \<Rightarrow> scheduler \<Rightarrow> scheduler \<times> bool" where
  "resume_task now tid new_start_time s =
     (case map_of (tasks s) tid of
        None \<Rightarrow> (s, False)
      | Some t \<Rightarrow>
          if status t = CANCELLED
          then (case new_start_time of
                  Some st \<Rightarrow>
                    (s\<lparr>tasks := update_task tid (\<lambda>t. t\<lparr>status := PENDING, next_run := st\<rparr>) (tasks s)\<rparr>,
                     True)
                | None \<Rightarrow>
                    (case plus_timedelta now (timedelta_minutes 5) of
                       Inr st \<Rightarrow>
                         (s\<lparr>tasks := update_task tid (\<lambda>t. t\<lparr>status := PENDING, next_run := st\<rparr>) (tasks s)\<rparr>,
                          True)
                     | Inl _ \<Rightarrow>
                         (s\<lparr>tasks := update_task tid (\<lambda>t. t\<lparr>status := PENDING\<rparr>) (tasks s)\<rparr>,
                          False)))
          else (s, False))"

text \<open>\<^verbatim>\<open>if new_interval:\<close> is false for \<^verbatim>\<open>None\<close> and for \<^verbatim>\<open>0\<close>.\<close>

definition reschedule_task :: "string \<Rightarrow> datetime \<Rightarrow> int option \<Rightarrow> scheduler \<Rightarrow> scheduler \<times> bool" where
  "reschedule_task tid new_start_time new_interval s =
     (case map_of (tasks s) tid of
        None \<Rightarrow> (s, False)
      | Some _ \<Rightarrow>
          (s\<lparr>tasks := update_task tid
                (\<lambda>t. (case new_interval of
                         None \<Rightarrow> t\<lparr>next_run := new_start_time\<rparr>
                       | Some i \<Rightarrow>
                           if i \<noteq> 0 then t\<lparr>next_run := new_start_time, interval_seconds := Some i\<rparr>
                           else t\<lparr>next_run := new_start_time\<rparr>)\<lparr>status := PENDING\<rparr>)
                (tasks s)\<rparr>, True))"

subsection \<open>The executor\<close>

text \<open>
  What one call of \<^verbatim>\<open>_execute_task\<close> observes of the world: the clock when it starts,
  how awaiting the handler ends, and the clock after the handler has returned. The
  source tells three endings apart: a returned value, \<^verbatim>\<open>asyncio.CancelledError\<close>, and
  any other \<^verbatim>\<open>Exception\<close>, of which it keeps \<^verbatim>\<open>str(e)\<close>.
\<close>

datatype outcome = Returned pyval | Raised string | Cancelled

record run =
  started :: datetime
  outcome :: outcome
  finished :: datetime

text \<open>
  \<^verbatim>\<open>if task["max_runs"] and ...\<close> and \<^verbatim>\<open>elif task["interval_seconds"]:\<close> test the
  truth value of an optional integer: \<^verbatim>\<open>None\<close> and \<^verbatim>\<open>0\<close> are both false. An
  \<^verbatim>\<open>OverflowError\<close> of the next start time is raised inside the \<^verbatim>\<open>try\<close>, after the
  result and the count were written.
\<close>

definition truthy :: "int option \<Rightarrow> bool" where
  "truthy v = (case v of None \<Rightarrow> False | Some n \<Rightarrow> n \<noteq> 0)"

definition execute_task :: "run \<Rightarrow> task \<Rightarrow> task" where
  "execute_task r t =
     (let t1 = t\<lparr>status := RUNNING, last_run := Some (started r)\<rparr> in
      case outcome r of
        Cancelled \<Rightarrow> t1\<lparr>status := CANCELLED\<rparr>
      | Raised msg \<Rightarrow> t1\<lparr>status := FAILED, last_error := Some (HandlerError msg)\<rparr>
      | Returned v \<Rightarrow>
          (let t2 = t1\<lparr>last_result := v, run_count := run_count t1 + 1\<rparr> in
           if truthy (max_runs t2) \<and> the (max_runs t2) \<le> run_count t2
           then t2\<lparr>status := COMPLETED\<rparr>
           else if truthy (interval_seconds t2)
           then (case plus_timedelta (finished r) (timedelta_seconds (the (interval_seconds t2))) of
                   Inr nr \<Rightarrow> t2\<lparr>next_run := nr, status := PENDING\<rparr>
                 | Inl e \<Rightarrow> t2\<lparr>status := FAILED, last_error := Some e\<rparr>)
           else t2\<lparr>status := COMPLETED\<rparr>))"

text \<open>
  The two halves of \<^verbatim>\<open>_execute_task\<close>. The first writes the status and the start
  time, reads \<^verbatim>\<open>task["handler"]\<close> and calls it: it yields the record as written and
  the handler that is awaited. The second runs when the handler has ended, on the
  dictionary as it is by then, and writes the outcome.
\<close>

definition begin_task :: "datetime \<Rightarrow> task \<Rightarrow> task \<times> handler" where
  "begin_task now t = (t\<lparr>status := RUNNING, last_run := Some now\<rparr>, handler t)"

definition finish_task :: "outcome \<Rightarrow> datetime \<Rightarrow> task \<Rightarrow> task" where
  "finish_task out now t =
     (case out of
        Cancelled \<Rightarrow> t\<lparr>status := CANCELLED\<rparr>
      | Raised msg \<Rightarrow> t\<lparr>status := FAILED, last_error := Some (HandlerError msg)\<rparr>
      | Returned v \<Rightarrow>
          (let t2 = t\<lparr>last_result := v, run_count := run_count t + 1\<rparr> in
           if truthy (max_runs t2) \<and> the (max_runs t2) \<le> run_count t2
           then t2\<lparr>status := COMPLETED\<rparr>
           else if truthy (interval_seconds t2)
           then (case plus_timedelta now (timedelta_seconds (the (interval_seconds t2))) of
                   Inr nr \<Rightarrow> t2\<lparr>next_run := nr, status := PENDING\<rparr>
                 | Inl e \<Rightarrow> t2\<lparr>status := FAILED, last_error := Some e\<rparr>)
           else t2\<lparr>status := COMPLETED\<rparr>))"

text \<open>
  The handler can also end with an exception that is neither \<^verbatim>\<open>CancelledError\<close> nor an
  \<^verbatim>\<open>Exception\<close>, such as \<^verbatim>\<open>KeyboardInterrupt\<close> or \<^verbatim>\<open>SystemExit\<close>. No \<^verbatim>\<open>except\<close> clause
  of the executor matches it: nothing more is written and the exception leaves the
  executor.
\<close>

datatype ending = Caught outcome | Uncaught

text \<open>
  \<^verbatim>\<open>force_run_task\<close> hands the stored dictionary to the executor whatever its status.
  Up to the \<^verbatim>\<open>await\<close> it either returns \<^verbatim>\<open>False\<close>, which is \<open>None\<close> here, or awaits
  the handler given. After the handler has ended in a way the executor catches, the
  outcome is written into the dictionary and \<^verbatim>\<open>True\<close> is returned. The third component
  of \<open>force_run_task\<close> lists the handler references that were awaited.
\<close>

definition force_run_begin :: "datetime \<Rightarrow> string \<Rightarrow> scheduler \<Rightarrow> scheduler \<times> handler option" where
  "force_run_begin now tid s =
     (case map_of (tasks s) tid of
        None \<Rightarrow> (s, None)
      | Some t \<Rightarrow>
          (s\<lparr>tasks := update_task tid (\<lambda>u. fst (begin_task now u)) (tasks s)\<rparr>,
           Some (snd (begin_task now t))))"

definition write_back :: "outcome \<Rightarrow> datetime \<Rightarrow> string \<Rightarrow> scheduler \<Rightarrow> scheduler" where
  "write_back out now tid s = s\<lparr>tasks := update_task tid (finish_task out now) (tasks s)\<rparr>"

definition force_run_task :: "run \<Rightarrow> string \<Rightarrow> scheduler \<Rightarrow> scheduler \<times> bool \<times> (string \<times> handler) list" where
  "force_run_task r tid s =
     (case force_run_begin (started r) tid s of
        (s1, None) \<Rightarrow> (s1, False, [])
      | (s1, Some h) \<Rightarrow> (write_back (outcome r) (finished r) tid s1, True, [(tid, h)]))"

subsection \<open>The scheduler loop\<close>

text \<open>
  One pass of the \<^verbatim>\<open>for\<close> loop over \<^verbatim>\<open>list(self.tasks.items())\<close>: every dictionary
  that is \<^verbatim>\<open>PENDING\<close> and due at \<open>cur\<close> goes to the executor. \<open>env k\<close> is what the
  execution of task \<open>k\<close> observes. The second component lists, in order, the tasks
  dispatched and the handler reference each one awaited.
\<close>

definition due :: "datetime \<Rightarrow> task \<Rightarrow> bool" where
  "due cur t = (status t = PENDING \<and> next_run t \<le> cur)"

fun scan :: "datetime \<Rightarrow> (string \<Rightarrow> run) \<Rightarrow> (string \<times> task) list
    \<Rightarrow> (string \<times> task) list \<times> (string \<times> handler) list" where
  "scan cur env [] = ([], [])"
| "scan cur env ((k, t) # rest) =
     (let (rest', ds) = scan cur env rest in
      if due cur t then ((k, execute_task (env k) t) # rest', (k, handler t) # ds)
      else ((k, t) # rest', ds))"

text \<open>One iteration of \<^verbatim>\<open>while self.is_running\<close>, without the sleep.\<close>

definition scheduler_loop :: "datetime \<Rightarrow> (string \<Rightarrow> run) \<Rightarrow> scheduler \<Rightarrow> scheduler \<times> (string \<times> handler) list" where
  "scheduler_loop cur env s =
     (if is_running s
      then (let (ts, ds) = scan cur env (tasks s) in (s\<lparr>tasks := ts\<rparr>, ds))
      else (s, []))"

subsection \<open>Runs of the service\<close>

text \<open>
  The calls the service receives from outside and an iteration of its own loop, each
  taken as a whole.
\<close>

datatype op =
    Schedule datetime string handler datetime "int option" "int option" TaskPriority
  | Cancel string
  | Pause string
  | Resume datetime string "datetime option"
  | Reschedule string datetime "int option"
  | ForceRun run string
  | Tick datetime "string \<Rightarrow> run"

fun apply_op :: "op \<Rightarrow> scheduler \<Rightarrow> scheduler" where
  "apply_op (Schedule now tid h st iv mr pr) s = fst (schedule_task now tid h st iv mr pr s)"
| "apply_op (Cancel tid) s = fst (cancel_task tid s)"
| "apply_op (Pause tid) s = fst (pause_task tid s)"
| "apply_op (Resume now tid st) s = fst (resume_task now tid st s)"
| "apply_op (Reschedule tid st iv) s = fst (reschedule_task tid st iv s)"
| "apply_op (ForceRun r tid) s = fst (force_run_task r tid s)"
| "apply_op (Tick cur env) s = fst (scheduler_loop cur env s)"

text \<open>The tasks whose handlers the loop awaits during one operation.\<close>

fun loop_dispatch :: "op \<Rightarrow> scheduler \<Rightarrow> (string \<times> handler) list" where
  "loop_dispatch (Tick cur env) s = snd (scheduler_loop cur env s)"
| "loop_dispatch _ s = []"

text \<open>
  The calls that take the task \<open>tid\<close> out of the status \<open>st\<close>, for a status other
  than \<^verbatim>\<open>PENDING\<close>: \<^verbatim>\<open>reschedule_task\<close> and \<^verbatim>\<open>force_run_task\<close> always,
  \<^verbatim>\<open>cancel_task\<close> unless the task is cancelled already, \<^verbatim>\<open>resume_task\<close> only when
  it is cancelled.
\<close>

fun wakes :: "TaskStatus \<Rightarrow> string \<Rightarrow> op \<Rightarrow> bool" where
  "wakes st tid (Cancel k) = (k = tid \<and> st \<noteq> CANCELLED)"
| "wakes st tid (Resume now k nst) = (k = tid \<and> st = CANCELLED)"
| "wakes st tid (Reschedule k nst iv) = (k = tid)"
| "wakes st tid (ForceRun r k) = (k = tid)"
| "wakes st tid _ = False"

subsection \<open>Executions that suspend\<close>

text \<open>
  The loop coroutine between two steps of the service: asleep; suspended in
  \<^verbatim>\<open>_execute_task\<close> on the handler of one task, with the time read at the top of the
  iteration and the rest of the snapshot \<^verbatim>\<open>list(self.tasks.items())\<close> still to visit;
  or ended. The snapshot holds the dictionaries themselves, which stay registered under
  their ids, so it is kept as the list of ids.
\<close>

datatype loop_state = Asleep | Awaiting datetime "string list" string | Ended

text \<open>
  The \<^verbatim>\<open>for\<close> loop from one entry of the snapshot on, up to the next \<^verbatim>\<open>await\<close>: it
  tests each dictionary as it is now, and the first one that is due is handed to the
  executor, which suspends on its handler. \<open>now\<close> is the clock the executor reads.
\<close>

fun advance :: "datetime \<Rightarrow> datetime \<Rightarrow> string list \<Rightarrow> scheduler
    \<Rightarrow> scheduler \<times> loop_state \<times> (string \<times> handler) list" where
  "advance cur now [] s = (s, Asleep, [])"
| "advance cur now (k # ks) s =
     (case map_of (tasks s) k of
        None \<Rightarrow> advance cur now ks s
      | Some t \<Rightarrow>
          if due cur t
          then (s\<lparr>tasks := update_task k (\<lambda>u. fst (begin_task now u)) (tasks s)\<rparr>,
                Awaiting cur ks k, [(k, snd (begin_task now t))])
          else advance cur now ks s)"

text \<open>
  The service with its coroutines: the registry, the loop, and the ids of the
  executions that \<^verbatim>\<open>force_run_task\<close> has started and that are still suspended on
  their handlers.
\<close>

record system =
  svc :: scheduler
  loop :: loop_state
  forced :: "string list"

definition idle :: "scheduler \<Rightarrow> system" where
  "idle s = \<lparr>svc = s, loop = Asleep, forced = []\<rparr>"

text \<open>
  The steps of the service. \<open>Call\<close> is a call that runs to its end without giving up
  control: a control operation, or \<^verbatim>\<open>force_run_task\<close> or an iteration of the loop
  (when the loop is asleep) with handlers that never suspend. The other steps are the
  halves of executions whose handlers do suspend: \<^verbatim>\<open>force_run_task\<close> up to its
  \<^verbatim>\<open>await\<close>, and the end of a handler it awaits; the loop waking up and running up
  to its first \<^verbatim>\<open>await\<close>, and the end of the handler the loop awaits, after which the
  loop goes on through its snapshot. A step that cannot happen in a state, such as the
  end of a handler that nobody awaits, leaves the state as it is.
\<close>

datatype event =
    Call op
  | ForceBegin datetime string
  | ForceEnd string ending datetime
  | Wake datetime datetime
  | LoopEnd ending datetime datetime

text \<open>The new state, and the tasks whose handlers the loop has called in this step.\<close>

fun fire :: "event \<Rightarrow> system \<Rightarrow> system \<times> (string \<times> handler) list" where
  "fire (Call (Tick cur env)) s =
     (if loop s = Asleep
      then (s\<lparr>svc := apply_op (Tick cur env) (svc s)\<rparr>, loop_dispatch (Tick cur env) (svc s))
      else (s, []))"
| "fire (Call x) s = (s\<lparr>svc := apply_op x (svc s)\<rparr>, [])"
| "fire (ForceBegin now tid) s =
     (case force_run_begin now tid (svc s) of
        (sv, None) \<Rightarrow> (s, [])
      | (sv, Some h) \<Rightarrow> (s\<lparr>svc := sv, forced := tid # forced s\<rparr>, []))"
| "fire (ForceEnd tid e now) s =
     (if tid \<in> set (forced s)
      then (case e of
              Caught out \<Rightarrow> (s\<lparr>svc := write_back out now tid (svc s), forced := remove1 tid (forced s)\<rparr>, [])
            | Uncaught \<Rightarrow> (s\<lparr>forced := remove1 tid (forced s)\<rparr>, []))
      else (s, []))"
| "fire (Wake cur now) s =
     (if loop s = Asleep
      then (if is_running (svc s)
            then (case advance cur now (map fst (tasks (svc s))) (svc s) of
                    (sv, l, ds) \<Rightarrow> (s\<lparr>svc := sv, loop := l\<rparr>, ds))
            else (s\<lparr>loop := Ended\<rparr>, []))
      else (s, []))"
| "fire (LoopEnd e fin now) s =
     (case loop s of
        Awaiting cur ks k \<Rightarrow>
          (case e of
             Caught out \<Rightarrow>
               (case advance cur now ks (write_back out fin k (svc s)) of
                  (sv, l, ds) \<Rightarrow> (s\<lparr>svc := sv, loop := l\<rparr>, ds))
           | Uncaught \<Rightarrow> (s\<lparr>loop := Ended\<rparr>, []))
      | _ \<Rightarrow> (s, []))"

fun trace :: "event list \<Rightarrow> system \<Rightarrow> system \<times> (string \<times> handler) list" where
  "trace [] s = (s, [])"
| "trace (e # es) s =
     (case fire e s of (s1, ds) \<Rightarrow> (case trace es s1 of (s2, ds') \<Rightarrow> (s2, ds @ ds')))"

text \<open>An execution of the task is suspended on its handler.\<close>

definition in_flight :: "string \<Rightarrow> system \<Rightarrow> bool" where
  "in_flight tid s =
     (tid \<in> set (forced s) \<or> (case loop s of Awaiting cur ks k \<Rightarrow> k = tid | _ \<Rightarrow> False))"

text \<open>The steps that take the task \<open>tid\<close> out of the status \<open>st\<close>.\<close>

fun disturbs :: "TaskStatus \<Rightarrow> string \<Rightarrow> event \<Rightarrow> bool" where
  "disturbs st tid (Call x) = wakes st tid x"
| "disturbs st tid (ForceBegin now k) = (k = tid)"
| "disturbs st tid _ = False"

fun is_resume_or_reschedule :: "string \<Rightarrow> event \<Rightarrow> bool" where
  "is_resume_or_reschedule tid (Call (Resume now k st)) = (k = tid)"
| "is_resume_or_reschedule tid (Call (Reschedule k st iv)) = (k = tid)"
| "is_resume_or_reschedule tid _ = False"


text \<open>Every dictionary stored under \<open>tid\<close> has status \<open>st\<close>.\<close>

definition all_status :: "string \<Rightarrow> TaskStatus \<Rightarrow> (string \<times> task) list \<Rightarrow> bool" where
  "all_status tid st ts = list_all (\<lambda>(k, t). k \<noteq> tid \<or> status t = st) ts"

text \<open>The sum \<open>d + timedelta(seconds=n)\<close> exists.\<close>

definition no_overflow :: "datetime \<Rightarrow> int \<Rightarrow> bool" where
  "no_overflow d n =
     (case plus_timedelta d (timedelta_seconds n) of Inr _ \<Rightarrow> True | Inl _ \<Rightarrow> False)"

definition seconds :: "int \<Rightarrow> timedelta" where
  "seconds n = n * 1000000"

subsection \<open>Two tasks used in the examples\<close>

definition one_run :: "outcome \<Rightarrow> string \<Rightarrow> run" where
  "one_run out k = \<lparr>started = 0, outcome = out, finished = 0\<rparr>"

definition job :: "TaskStatus \<Rightarrow> int option \<Rightarrow> int option \<Rightarrow> task" where
  "job st iv mr =
     \<lparr>task_id = ''job'', handler = 7, next_run = 0, interval_seconds = iv, max_runs = mr,
      run_count = 0, priority = NORMAL, status = st, created_at = 0, last_run = None,
      last_result = PyNone, last_error = None\<rparr>"

definition service :: "task \<Rightarrow> scheduler" where
  "service t = \<lparr>tasks = [(task_id t, t)], task_handlers = [task_id t \<mapsto> handler t], is_running = True\<rparr>"

definition other :: task where
  "other =
     \<lparr>task_id = ''other'', handler = 8, next_run = 0, interval_seconds = None, max_runs = None,
      run_count = 0, priority = LOW, status = PENDING, created_at = 0, last_run = None,
      last_result = PyNone, last_error = None\<rparr>"

text \<open>
  A running service with two tasks, and the same service when its loop has woken at
  time 0, has called the handler of the first task and is suspended on it, the second
  task still to visit.
\<close>

definition pair :: "task \<Rightarrow> scheduler" where
  "pair t = \<lparr>tasks = [(task_id t, t), (''other'', other)],
             task_handlers = [task_id t \<mapsto> handler t, ''other'' \<mapsto> 8], is_running = True\<rparr>"

definition mid_tick :: system where
  "mid_tick = \<lparr>svc = pair ((job RUNNING (Some 60) None)\<lparr>last_run := Some 0\<rparr>),
               loop = Awaiting 0 [''other''] ''job'', forced = []\<rparr>"

section \<open>Properties of the registry\<close>

lemma update_task_map:
  "update_task k f ts = map (\<lambda>(k', t). (k', if k' = k then f t else t)) ts"
  by (induction ts) auto

lemma map_of_update_task:
  "map_of (update_task k f ts) k' = (if k' = k then map_option f (map_of ts k') else map_of ts k')"
  by (induction ts) auto

lemma scan_tasks:
  "fst (scan cur env ts) = map (\<lambda>(k, t). (k, if due cur t then execute_task (env k) t else t)) ts"
  by (induction ts) (auto simp: case_prod_unfold Let_def)

lemma scan_dispatch:
  "snd (scan cur env ts) = map (\<lambda>(k, t). (k, handler t)) (filter (\<lambda>(k, t). due cur t) ts)"
  by (induction ts) (auto simp: case_prod_unfold Let_def)

lemma map_of_scan:
  "map_of (fst (scan cur env ts)) k =
     map_option (\<lambda>t. if due cur t then execute_task (env k) t else t) (map_of ts k)"
  by (induction ts) (auto simp: case_prod_unfold Let_def)

lemma dispatch_of_key:
  "filter (\<lambda>(k', h). k' = k) (snd (scan cur env ts))
     = map (\<lambda>(k', t). (k', handler t)) (filter (\<lambda>(k', t). k' = k \<and> due cur t) ts)"
  by (induction ts) (auto simp: case_prod_unfold Let_def)

lemma absent_filter: "map_of ts k = None \<Longrightarrow> filter (\<lambda>(k', t). k' = k \<and> P t) ts = []"
  by (induction ts) (auto split: if_splits)

lemma scheduler_loop_tasks:
  "tasks (fst (scheduler_loop cur env s)) = (if is_running s then fst (scan cur env (tasks s)) else tasks s)"
  by (simp add: scheduler_loop_def case_prod_unfold Let_def)

lemma scheduler_loop_dispatch:
  "snd (scheduler_loop cur env s) = (if is_running s then snd (scan cur env (tasks s)) else [])"
  by (simp add: scheduler_loop_def case_prod_unfold Let_def)

subsection \<open>Date arithmetic\<close>

lemma no_overflow_sum:
  "no_overflow d n \<Longrightarrow> plus_timedelta d (timedelta_seconds n) = Inr (d + seconds n)"
  by (auto simp: no_overflow_def plus_timedelta_def timedelta_seconds_def datetime_add_def
        seconds_def split: sum.splits if_splits)

lemma five_minutes:
  "no_overflow now 300 \<Longrightarrow> plus_timedelta now (timedelta_minutes 5) = Inr (now + seconds 300)"
  using no_overflow_sum [of now 300] by (simp add: timedelta_minutes_def)

lemma no_overflow_eval:
  "no_overflow d n \<longleftrightarrow>
     - 999999999 \<le> n div 86400 \<and> n div 86400 \<le> 999999999 \<and>
     0 \<le> d + n * 1000000 \<and> d + n * 1000000 \<le> 315537897599999999"
  by (auto simp: no_overflow_def plus_timedelta_def timedelta_seconds_def datetime_add_def
        DATETIME_MAX_def TIMEDELTA_MAX_DAYS_def)

subsection \<open>The executor on one record\<close>

lemma execute_task_run_count: "run_count t \<le> run_count (execute_task r t)"
  by (auto simp: execute_task_def Let_def split: outcome.splits sum.splits)

text \<open>The whole executor is its two halves with nothing in between.\<close>

lemma execute_task_split:
  "execute_task r t = finish_task (outcome r) (finished r) (fst (begin_task (started r) t))"
  by (simp add: execute_task_def finish_task_def begin_task_def Let_def split: outcome.splits)

lemma update_task_twice:
  "update_task k f (update_task k g ts) = update_task k (\<lambda>u. f (g u)) ts"
  by (induction ts) auto

lemma force_run_task_eq:
  "force_run_task r tid s =
     (case map_of (tasks s) tid of
        None \<Rightarrow> (s, False, [])
      | Some t \<Rightarrow> (s\<lparr>tasks := update_task tid (execute_task r) (tasks s)\<rparr>, True, [(tid, handler t)]))"
proof -
  have "execute_task r = (\<lambda>u. finish_task (outcome r) (finished r) (fst (begin_task (started r) u)))"
    by (rule ext) (simp add: execute_task_split)
  then show ?thesis
    by (simp add: force_run_task_def force_run_begin_def write_back_def update_task_twice
          begin_task_def split: option.splits)
qed

text \<open>The definitions that evaluate a run of the service on concrete data.\<close>

lemmas run_simps = schedule_task_def cancel_task_def pause_task_def resume_task_def
  reschedule_task_def force_run_task_eq force_run_begin_def write_back_def scheduler_loop_def
  execute_task_def begin_task_def finish_task_def truthy_def due_def
  plus_timedelta_def timedelta_seconds_def timedelta_minutes_def datetime_add_def
  DATETIME_MAX_def TIMEDELTA_MAX_DAYS_def Let_def idle_def

subsection \<open>A status that the loop leaves alone\<close>

lemma all_status_iff: "all_status tid st ts \<longleftrightarrow> (\<forall>t. (tid, t) \<in> set ts \<longrightarrow> status t = st)"
  by (auto simp: all_status_def list_all_iff)

lemma all_status_lookup:
  "all_status tid st ts \<Longrightarrow> map_of ts tid = Some t \<Longrightarrow> status t = st"
  by (auto simp: all_status_iff dest: map_of_SomeD)


lemma all_status_update_other:
  "k \<noteq> tid \<Longrightarrow> all_status tid st (update_task k f ts) = all_status tid st ts"
  by (force simp: all_status_iff update_task_map)

lemma all_status_update_same:
  "all_status tid st ts \<Longrightarrow> (\<And>t. status t = st \<Longrightarrow> status (f t) = st) \<Longrightarrow>
   all_status tid st (update_task tid f ts)"
  by (force simp: all_status_iff update_task_map)

lemma all_status_append:
  "all_status tid st (ts @ us) = (all_status tid st ts \<and> all_status tid st us)"
  by (simp add: all_status_def)

lemma all_status_scan:
  "st \<noteq> PENDING \<Longrightarrow> all_status tid st ts \<Longrightarrow>
   all_status tid st (fst (scan cur env ts)) \<and> tid \<notin> fst ` set (snd (scan cur env ts))"
  by (force simp: all_status_iff scan_tasks scan_dispatch due_def)

text \<open>
  A registered task whose status is not \<^verbatim>\<open>PENDING\<close> keeps its status, and the loop does
  not dispatch it, through every call that does not wake it.
\<close>

lemma frozen_step:
  assumes "st \<noteq> PENDING" and "map_of (tasks s) tid \<noteq> None" and "all_status tid st (tasks s)"
    and "\<not> wakes st tid x"
  shows "map_of (tasks (apply_op x s)) tid \<noteq> None \<and> all_status tid st (tasks (apply_op x s)) \<and>
         tid \<notin> fst ` set (loop_dispatch x s)"
proof (cases x)
  case (Schedule now k h nst iv mr pr)
  with assms show ?thesis
    by (cases "k = tid")
      (auto simp: schedule_task_def all_status_append all_status_def map_add_def split: option.splits)
next
  case (Cancel k)
  with assms show ?thesis
    by (cases "k = tid")
      (auto simp: cancel_task_def map_of_update_task all_status_update_other
        intro: all_status_update_same split: option.splits)
next
  case (Pause k)
  with assms show ?thesis
    by (cases "k = tid")
      (auto simp: pause_task_def map_of_update_task all_status_update_other
        dest: all_status_lookup split: option.splits)
next
  case (Resume now k nst)
  with assms show ?thesis
    by (cases "k = tid")
      (auto simp: resume_task_def map_of_update_task all_status_update_other
        dest: all_status_lookup split: option.splits sum.splits)
next
  case (Reschedule k nst iv)
  with assms show ?thesis
    by (auto simp: reschedule_task_def map_of_update_task all_status_update_other split: option.splits)
next
  case (ForceRun r k)
  with assms show ?thesis
    by (auto simp: force_run_task_eq map_of_update_task all_status_update_other split: option.splits)
next
  case (Tick cur env)
  with assms show ?thesis
    using all_status_scan [of st tid "tasks s" cur env]
    by (auto simp: scheduler_loop_tasks scheduler_loop_dispatch map_of_scan)
qed

subsection \<open>The same with executions in flight\<close>

lemma advance_frozen:
  assumes "st \<noteq> PENDING" and "map_of (tasks s) tid \<noteq> None" and "all_status tid st (tasks s)"
  shows "case advance cur now ks s of (s', l, ds) \<Rightarrow>
           map_of (tasks s') tid \<noteq> None \<and> all_status tid st (tasks s') \<and>
           (\<forall>c r k. l = Awaiting c r k \<longrightarrow> k \<noteq> tid) \<and> tid \<notin> fst ` set ds"
proof (induction ks)
  case Nil
  from assms show ?case by simp
next
  case (Cons k ks)
  show ?case
  proof (cases "map_of (tasks s) k")
    case None
    with Cons show ?thesis by simp
  next
    case (Some t)
    show ?thesis
    proof (cases "due cur t")
      case False
      with Some Cons show ?thesis by simp
    next
      case True
      with Some assms have "k \<noteq> tid"
        by (auto simp: due_def dest: all_status_lookup)
      with True Some assms show ?thesis
        by (simp add: map_of_update_task all_status_update_other)
    qed
  qed
qed




lemma fire_frozen:
  assumes "st \<noteq> PENDING" and "map_of (tasks (svc s)) tid \<noteq> None"
    and "all_status tid st (tasks (svc s))" and "\<not> in_flight tid s" and "\<not> disturbs st tid e"
  shows "case fire e s of (s', ds) \<Rightarrow>
           map_of (tasks (svc s')) tid \<noteq> None \<and> all_status tid st (tasks (svc s')) \<and>
           \<not> in_flight tid s' \<and> tid \<notin> fst ` set ds"
proof (cases e)
  case (Call x)
  with assms have "\<not> wakes st tid x" by simp
  from frozen_step [OF assms(1) assms(2) assms(3) this] assms(2) assms(3) assms(4) Call
  show ?thesis
    by (cases x) (simp_all add: in_flight_def)
next
  case (ForceBegin now k)
  with assms show ?thesis
    by (auto simp: force_run_begin_def in_flight_def map_of_update_task all_status_update_other
        split: option.splits)
next
  case (ForceEnd k x now)
  with assms show ?thesis
    by (cases x)
      (auto simp: write_back_def in_flight_def map_of_update_task all_status_update_other
        dest: notin_set_remove1)
next
  case (Wake cur now)
  with assms advance_frozen [OF assms(1) assms(2) assms(3), of cur now "map fst (tasks (svc s))"]
  show ?thesis
    by (auto simp: in_flight_def split: prod.splits loop_state.splits)
next
  case (LoopEnd x fin now)
  show ?thesis
  proof (cases "loop s")
    case Asleep
    with LoopEnd assms show ?thesis by simp
  next
    case Ended
    with LoopEnd assms show ?thesis by simp
  next
    case (Awaiting cur ks k)
    with assms(4) have other: "k \<noteq> tid"
      by (simp add: in_flight_def)
    show ?thesis
    proof (cases x)
      case Uncaught
      with LoopEnd Awaiting assms show ?thesis
        by (simp add: in_flight_def)
    next
      case (Caught out)
      from other assms(2,3)
      have "map_of (tasks (write_back out fin k (svc s))) tid \<noteq> None"
        and "all_status tid st (tasks (write_back out fin k (svc s)))"
        by (simp_all add: write_back_def map_of_update_task all_status_update_other)
      from advance_frozen [OF assms(1) this, of cur now ks] LoopEnd Awaiting Caught assms(4)
      show ?thesis
        by (auto simp: in_flight_def split: prod.splits loop_state.splits)
    qed
  qed
qed

lemma trace_frozen:
  "st \<noteq> PENDING \<Longrightarrow> map_of (tasks (svc s)) tid \<noteq> None \<Longrightarrow> all_status tid st (tasks (svc s)) \<Longrightarrow>
   \<not> in_flight tid s \<Longrightarrow> \<not> list_ex (disturbs st tid) es \<Longrightarrow>
   tid \<notin> fst ` set (snd (trace es s)) \<and> map_of (tasks (svc (fst (trace es s)))) tid \<noteq> None \<and>
   all_status tid st (tasks (svc (fst (trace es s))))"
proof (induction es arbitrary: s)
  case Nil
  then show ?case by simp
next
  case (Cons e es)
  from Cons.prems have ne: "\<not> disturbs st tid e" and nes: "\<not> list_ex (disturbs st tid) es"
    by simp_all
  obtain s1 ds where f: "fire e s = (s1, ds)"
    by (cases "fire e s")
  from fire_frozen [OF Cons.prems(1) Cons.prems(2) Cons.prems(3) Cons.prems(4) ne] f
  have here: "map_of (tasks (svc s1)) tid \<noteq> None" "all_status tid st (tasks (svc s1))"
      "\<not> in_flight tid s1" "tid \<notin> fst ` set ds"
    by simp_all
  from Cons.IH [OF Cons.prems(1) here(1) here(2) here(3) nes] here(4) f
  show ?case by (auto split: prod.splits)
qed

text \<open>
  An exception that the executor does not catch is caught by neither \<^verbatim>\<open>except\<close> clause
  of \<^verbatim>\<open>_scheduler_loop\<close>: it ends the loop, and the rest of the snapshot is not
  visited.
\<close>

lemma uncaught_ends_loop:
  "loop s = Awaiting cur ks k \<Longrightarrow>
   fire (LoopEnd Uncaught fin now) s = (s\<lparr>loop := Ended\<rparr>, [])"
  by simp

text \<open>
  The second half of the executor writes its status over the one a caller has written
  while the handler ran. Here the loop calls the handler of a recurring task, the task
  is rescheduled and then cancelled during the handler, the handler returns, and the
  task is \<^verbatim>\<open>PENDING\<close> again: the next iteration dispatches it.
\<close>

lemma cancel_overwritten_in_flight:
  "snd (trace [Wake 0 0, Call (Reschedule ''job'' 0 None), Call (Cancel ''job''),
               LoopEnd (Caught (Returned PyNone)) 1 1, Wake 70000000 70000000]
     (idle (service (job PENDING (Some 60) None)))) = [(''job'', 7), (''job'', 7)]"
  by (simp add: service_def job_def run_simps)

section \<open>The executor\<close>

text \<open>
  Claim C1, amended. When the handler returns \<open>v\<close>, the executor stores \<open>v\<close> as
  \<^verbatim>\<open>last_result\<close> and adds exactly 1 to \<^verbatim>\<open>run_count\<close>. Then: if \<^verbatim>\<open>max_runs\<close> is set
  and not 0, and the new count has reached it, the status is \<^verbatim>\<open>COMPLETED\<close>. Otherwise,
  if \<^verbatim>\<open>interval_seconds\<close> is set and not 0 and the time of completion plus the interval
  is a date of the runtime, \<^verbatim>\<open>next_run\<close> is that sum and the status is \<^verbatim>\<open>PENDING\<close>;
  if the interval is unset or 0, the status is \<^verbatim>\<open>COMPLETED\<close>.
\<close>

theorem execute_task_success:
  "outcome r = Returned v \<Longrightarrow>
   last_result (execute_task r t) = v \<and>
   run_count (execute_task r t) = run_count t + 1 \<and>
   (max_runs t = Some m \<and> m \<noteq> 0 \<and> m \<le> run_count t + 1 \<longrightarrow> status (execute_task r t) = COMPLETED) \<and>
   (max_runs t = None \<or> max_runs t = Some 0 \<or> (\<exists>n. max_runs t = Some n \<and> run_count t + 1 < n) \<longrightarrow>
      (interval_seconds t = Some i \<and> i \<noteq> 0 \<and> no_overflow (finished r) i \<longrightarrow>
         next_run (execute_task r t) = finished r + seconds i \<and> status (execute_task r t) = PENDING) \<and>
      (interval_seconds t = None \<or> interval_seconds t = Some 0 \<longrightarrow>
         status (execute_task r t) = COMPLETED))"
  by (auto simp: execute_task_def truthy_def Let_def no_overflow_sum split: sum.splits)

theorem execute_task_success_witness:
  "outcome (one_run (Returned (PyInt 1)) ''job'') = Returned (PyInt 1) \<and>
   max_runs (job PENDING (Some 60) (Some 1)) = Some 1 \<and>
   status (execute_task (one_run (Returned (PyInt 1)) ''job'') (job PENDING (Some 60) (Some 1))) = COMPLETED \<and>
   run_count (execute_task (one_run (Returned (PyInt 1)) ''job'') (job PENDING (Some 60) (Some 1))) = 1 \<and>
   last_result (execute_task (one_run (Returned (PyInt 1)) ''job'') (job PENDING (Some 60) (Some 1))) = PyInt 1 \<and>
   max_runs (job PENDING (Some 60) (Some 3)) = Some 3 \<and>
   interval_seconds (job PENDING (Some 60) (Some 3)) = Some 60 \<and>
   no_overflow (finished (one_run (Returned (PyInt 1)) ''job'')) 60 \<and>
   status (execute_task (one_run (Returned (PyInt 1)) ''job'') (job PENDING (Some 60) (Some 3))) = PENDING \<and>
   next_run (execute_task (one_run (Returned (PyInt 1)) ''job'') (job PENDING (Some 60) (Some 3))) = 60000000 \<and>
   interval_seconds (job PENDING None None) = None \<and>
   status (execute_task (one_run (Returned (PyInt 1)) ''job'') (job PENDING None None)) = COMPLETED"
  using execute_task_success [of "one_run (Returned (PyInt 1)) ''job''" "PyInt 1" "job PENDING (Some 60) (Some 1)" 1 60]
    execute_task_success [of "one_run (Returned (PyInt 1)) ''job''" "PyInt 1" "job PENDING (Some 60) (Some 3)" 3 60]
    execute_task_success [of "one_run (Returned (PyInt 1)) ''job''" "PyInt 1" "job PENDING None None" 3 60]
  by (simp add: one_run_def job_def no_overflow_eval seconds_def)

text \<open>
  As the specification words it, the claim fails where a bound or an interval is set
  to 0. With \<^verbatim>\<open>max_runs=0\<close> and an interval of 60 seconds the new count 1 has reached
  the bound, and the task is rescheduled all the same. With an interval of 0 and no
  bound the task is completed, not rescheduled.
\<close>

theorem execute_task_zero_counterexample:
  "outcome (one_run (Returned PyNone) ''job'') = Returned PyNone \<and>
   max_runs (job PENDING (Some 60) (Some 0)) = Some 0 \<and>
   0 \<le> run_count (execute_task (one_run (Returned PyNone) ''job'') (job PENDING (Some 60) (Some 0))) \<and>
   status (execute_task (one_run (Returned PyNone) ''job'') (job PENDING (Some 60) (Some 0))) = PENDING \<and>
   max_runs (job PENDING (Some 0) None) = None \<and>
   interval_seconds (job PENDING (Some 0) None) = Some 0 \<and>
   status (execute_task (one_run (Returned PyNone) ''job'') (job PENDING (Some 0) None)) = COMPLETED"
  by (simp add: run_simps one_run_def job_def)




section \<open>The control operations\<close>

text \<open>
  Claim C3, amended. \<^verbatim>\<open>cancel_task\<close> returns \<^verbatim>\<open>False\<close> and changes nothing when the id
  is unknown. For every registered id it returns \<^verbatim>\<open>True\<close>, sets the status to
  \<^verbatim>\<open>CANCELLED\<close> whatever the status was, \<^verbatim>\<open>COMPLETED\<close>, \<^verbatim>\<open>FAILED\<close> and \<^verbatim>\<open>CANCELLED\<close>
  included, and removes the id from \<^verbatim>\<open>task_handlers\<close>.
\<close>

theorem cancel_task_contract:
  "(snd (cancel_task tid s) \<longleftrightarrow> map_of (tasks s) tid \<noteq> None) \<and>
   (map_of (tasks s) tid = None \<longrightarrow> fst (cancel_task tid s) = s) \<and>
   (map_of (tasks s) tid = Some t \<longrightarrow>
      map_of (tasks (fst (cancel_task tid s))) tid = Some (t\<lparr>status := CANCELLED\<rparr>) \<and>
      task_handlers (fst (cancel_task tid s)) tid = None)"
  by (auto simp: cancel_task_def map_of_update_task split: option.splits)

theorem cancel_task_contract_witness:
  "map_of (tasks (service (job FAILED None None))) ''job'' = Some (job FAILED None None) \<and>
   snd (cancel_task ''job'' (service (job FAILED None None))) \<and>
   map_of (tasks (fst (cancel_task ''job'' (service (job FAILED None None))))) ''job''
     = Some (job CANCELLED None None) \<and>
   task_handlers (fst (cancel_task ''job'' (service (job FAILED None None)))) ''job'' = None \<and>
   map_of (tasks (service (job FAILED None None))) ''nope'' = None \<and>
   \<not> snd (cancel_task ''nope'' (service (job FAILED None None))) \<and>
   fst (cancel_task ''nope'' (service (job FAILED None None))) = service (job FAILED None None)"
  using cancel_task_contract [of "''job''" "service (job FAILED None None)" "job FAILED None None"]
    cancel_task_contract [of "''nope''" "service (job FAILED None None)" "job FAILED None None"]
  by (simp add: service_def job_def)

text \<open>
  As the specification words it, the claim fails: a task that is \<^verbatim>\<open>COMPLETED\<close> is
  moved to \<^verbatim>\<open>CANCELLED\<close>.
\<close>

theorem cancel_task_completed_counterexample:
  "map_of (tasks (service (job COMPLETED None None))) ''job'' = Some (job COMPLETED None None) \<and>
   status (job COMPLETED None None) = COMPLETED \<and>
   cancel_task ''job'' (service (job COMPLETED None None))
     = (\<lparr>tasks = [(''job'', job CANCELLED None None)], task_handlers = Map.empty, is_running = True\<rparr>, True)"
  by (simp add: cancel_task_def service_def job_def)

text \<open>
  Claim C4. \<^verbatim>\<open>schedule_task\<close> returns \<^verbatim>\<open>False\<close> when the id is already registered and
  then leaves the whole service, and so the existing record, as it was. For a fresh id
  it returns \<^verbatim>\<open>True\<close> and the registry holds a record under that id with status
  \<^verbatim>\<open>PENDING\<close>, \<^verbatim>\<open>next_run\<close> equal to the start time and \<^verbatim>\<open>run_count\<close> 0.
\<close>

theorem schedule_task_contract:
  "(map_of (tasks s) tid = Some t \<longrightarrow> schedule_task now tid h st iv mr pr s = (s, False)) \<and>
   (map_of (tasks s) tid = None \<longrightarrow>
      snd (schedule_task now tid h st iv mr pr s) = True \<and>
      (\<exists>t'. map_of (tasks (fst (schedule_task now tid h st iv mr pr s))) tid = Some t' \<and>
            status t' = PENDING \<and> next_run t' = st \<and> run_count t' = 0))"
  by (auto simp: schedule_task_def map_add_def)

theorem schedule_task_contract_witness:
  "map_of (tasks (service (job RUNNING None None))) ''job'' = Some (job RUNNING None None) \<and>
   schedule_task 5 ''job'' 9 1 (Some 60) None LOW (service (job RUNNING None None))
     = (service (job RUNNING None None), False) \<and>
   map_of (tasks init) ''job'' = None \<and>
   snd (schedule_task 5 ''job'' 9 1 (Some 60) None LOW init) = True \<and>
   (\<exists>t'. map_of (tasks (fst (schedule_task 5 ''job'' 9 1 (Some 60) None LOW init))) ''job'' = Some t' \<and>
         status t' = PENDING \<and> next_run t' = 1 \<and> run_count t' = 0)"
proof -
  have old: "map_of (tasks (service (job RUNNING None None))) ''job'' = Some (job RUNNING None None)"
    by (simp add: service_def job_def)
  have fresh: "map_of (tasks init) ''job'' = None"
    by (simp add: init_def)
  from old fresh
    schedule_task_contract [of "service (job RUNNING None None)" "''job''" "job RUNNING None None"
      5 9 1 "Some 60" None LOW]
    schedule_task_contract [of init "''job''" undefined 5 9 1 "Some 60" None LOW]
  show ?thesis by simp
qed

text \<open>
  Claim C5. \<^verbatim>\<open>pause_task\<close> returns \<^verbatim>\<open>True\<close> exactly when the id is registered and its
  status is \<^verbatim>\<open>PENDING\<close>, and then the status becomes \<^verbatim>\<open>CANCELLED\<close>. In every other
  case, an unknown id or a status \<^verbatim>\<open>RUNNING\<close>, \<^verbatim>\<open>COMPLETED\<close>, \<^verbatim>\<open>FAILED\<close> or
  \<^verbatim>\<open>CANCELLED\<close>, it returns \<^verbatim>\<open>False\<close> and the service is unchanged.
\<close>

theorem pause_task_contract:
  "(snd (pause_task tid s) \<longleftrightarrow> (\<exists>t. map_of (tasks s) tid = Some t \<and> status t = PENDING)) \<and>
   (map_of (tasks s) tid = Some t \<and> status t = PENDING \<longrightarrow>
      map_of (tasks (fst (pause_task tid s))) tid = Some (t\<lparr>status := CANCELLED\<rparr>)) \<and>
   (\<not> snd (pause_task tid s) \<longrightarrow> fst (pause_task tid s) = s)"
  by (auto simp: pause_task_def map_of_update_task split: option.splits)

theorem pause_task_contract_witness:
  "map_of (tasks (service (job PENDING None None))) ''job'' = Some (job PENDING None None) \<and>
   status (job PENDING None None) = PENDING \<and>
   snd (pause_task ''job'' (service (job PENDING None None))) \<and>
   map_of (tasks (fst (pause_task ''job'' (service (job PENDING None None))))) ''job''
     = Some (job CANCELLED None None) \<and>
   \<not> snd (pause_task ''job'' (service (job RUNNING None None))) \<and>
   fst (pause_task ''job'' (service (job RUNNING None None))) = service (job RUNNING None None)"
  using pause_task_contract [of "''job''" "service (job PENDING None None)" "job PENDING None None"]
    pause_task_contract [of "''job''" "service (job RUNNING None None)" "job RUNNING None None"]
  by (simp add: service_def job_def)

text \<open>
  Claim C6, amended. \<^verbatim>\<open>resume_task\<close> returns \<^verbatim>\<open>True\<close> only when the id is registered
  and its status is \<^verbatim>\<open>CANCELLED\<close>. For such a task, given a start time, or given none
  when now plus 5 minutes is a date of the runtime, it returns \<^verbatim>\<open>True\<close> and the record
  becomes \<^verbatim>\<open>PENDING\<close> with \<^verbatim>\<open>next_run\<close> the given start time, or now plus 5 minutes.
  That \<^verbatim>\<open>next_run\<close> is not before now when the start time was omitted or was itself
  not before now. For an unknown id and for any other status it returns \<^verbatim>\<open>False\<close> and
  the service is unchanged.
\<close>

theorem resume_task_contract:
  "(snd (resume_task now tid nst s) \<longrightarrow> (\<exists>t. map_of (tasks s) tid = Some t \<and> status t = CANCELLED)) \<and>
   (map_of (tasks s) tid = Some t \<and> status t = CANCELLED \<and> (nst = None \<longrightarrow> no_overflow now 300) \<longrightarrow>
      snd (resume_task now tid nst s) \<and>
      map_of (tasks (fst (resume_task now tid nst s))) tid
        = Some (t\<lparr>status := PENDING,
                  next_run := (case nst of Some st \<Rightarrow> st | None \<Rightarrow> now + seconds 300)\<rparr>) \<and>
      ((case nst of Some st \<Rightarrow> now \<le> st | None \<Rightarrow> True) \<longrightarrow>
         (\<exists>t'. map_of (tasks (fst (resume_task now tid nst s))) tid = Some t' \<and> now \<le> next_run t'))) \<and>
   (map_of (tasks s) tid = None \<or> (\<exists>u. map_of (tasks s) tid = Some u \<and> status u \<noteq> CANCELLED) \<longrightarrow>
      resume_task now tid nst s = (s, False))"
  by (auto simp: resume_task_def map_of_update_task five_minutes seconds_def
        split: option.splits sum.splits)

theorem resume_task_contract_witness:
  "map_of (tasks (service (job CANCELLED None None))) ''job'' = Some (job CANCELLED None None) \<and>
   status (job CANCELLED None None) = CANCELLED \<and> no_overflow 1000 300 \<and>
   snd (resume_task 1000 ''job'' None (service (job CANCELLED None None))) \<and>
   map_of (tasks (fst (resume_task 1000 ''job'' None (service (job CANCELLED None None))))) ''job''
     = Some ((job PENDING None None)\<lparr>next_run := 300001000\<rparr>) \<and>
   status (job FAILED None None) \<noteq> CANCELLED \<and>
   resume_task 1000 ''job'' None (service (job FAILED None None)) = (service (job FAILED None None), False)"
  using resume_task_contract [of 1000 "''job''" None "service (job CANCELLED None None)" "job CANCELLED None None"]
    resume_task_contract [of 1000 "''job''" None "service (job FAILED None None)" "job FAILED None None"]
  by (simp add: service_def job_def no_overflow_eval seconds_def)

text \<open>
  As the specification words it, the claim fails: resumed with a start time in the
  past, the task gets a \<^verbatim>\<open>next_run\<close> before now.
\<close>

theorem resume_task_past_counterexample:
  "map_of (tasks (service (job CANCELLED None None))) ''job'' = Some (job CANCELLED None None) \<and>
   status (job CANCELLED None None) = CANCELLED \<and>
   snd (resume_task 1000 ''job'' (Some 10) (service (job CANCELLED None None))) \<and>
   map_option next_run (map_of (tasks (fst (resume_task 1000 ''job'' (Some 10) (service (job CANCELLED None None))))) ''job'')
     = Some 10 \<and> \<not> (1000::int) \<le> 10"
  by (simp add: resume_task_def service_def job_def)

section \<open>Runs of the service over time\<close>

text \<open>
  Claim C7, amended. A task registered as \<^verbatim>\<open>schedule_task("cleanup", H, T0, 86400)\<close>
  under a fresh id, in an iteration of the running loop at or after \<open>T0\<close> where \<open>H\<close>
  returns \<^verbatim>\<open>{"deleted": 5}\<close>, is dispatched once and ends with \<^verbatim>\<open>run_count\<close> 1, status
  \<^verbatim>\<open>PENDING\<close>, that result as \<^verbatim>\<open>last_result\<close>, and \<^verbatim>\<open>next_run\<close> 86400 seconds after the
  clock reading taken when \<open>H\<close> had returned, provided that date exists.
\<close>

theorem cleanup_scenario:
  assumes "map_of (tasks s) ''cleanup'' = None" and "is_running s" and "T0 \<le> cur"
    and "outcome (env ''cleanup'') = Returned (PyDict [(''deleted'', PyInt 5)])"
    and "no_overflow (finished (env ''cleanup'')) 86400"
  shows "(\<exists>t. map_of (tasks (fst (scheduler_loop cur env
                 (fst (schedule_task now ''cleanup'' H T0 (Some 86400) None pr s))))) ''cleanup'' = Some t \<and>
             run_count t = 1 \<and> status t = PENDING \<and>
             next_run t = finished (env ''cleanup'') + seconds 86400 \<and>
             last_result t = PyDict [(''deleted'', PyInt 5)]) \<and>
         filter (\<lambda>(k, h). k = ''cleanup'')
           (snd (scheduler_loop cur env (fst (schedule_task now ''cleanup'' H T0 (Some 86400) None pr s))))
           = [(''cleanup'', H)]"
proof -
  let ?T = "\<lparr>task_id = ''cleanup'', handler = H, next_run = T0, interval_seconds = Some 86400,
      max_runs = None, run_count = 0, priority = pr, status = PENDING, created_at = now,
      last_run = None, last_result = PyNone, last_error = None\<rparr>"
  let ?s1 = "fst (schedule_task now ''cleanup'' H T0 (Some 86400) None pr s)"
  have ts: "tasks ?s1 = tasks s @ [(''cleanup'', ?T)]" and run: "is_running ?s1"
    using assms(1,2) by (simp_all add: schedule_task_def)
  have due: "due cur ?T"
    using assms(3) by (simp add: due_def)
  have stored: "map_of (tasks ?s1) ''cleanup'' = Some ?T"
    using assms(1) by (simp add: ts map_add_def)
  have after: "map_of (tasks (fst (scheduler_loop cur env ?s1))) ''cleanup''
      = Some (execute_task (env ''cleanup'') ?T)"
    using run due stored by (simp add: scheduler_loop_tasks map_of_scan)
  have fields: "run_count (execute_task (env ''cleanup'') ?T) = 1"
    "status (execute_task (env ''cleanup'') ?T) = PENDING"
    "next_run (execute_task (env ''cleanup'') ?T) = finished (env ''cleanup'') + seconds 86400"
    "last_result (execute_task (env ''cleanup'') ?T) = PyDict [(''deleted'', PyInt 5)]"
    using assms(4) no_overflow_sum [OF assms(5)]
    by (simp_all add: execute_task_def truthy_def)
  have once: "filter (\<lambda>(k, h). k = ''cleanup'') (snd (scheduler_loop cur env ?s1)) = [(''cleanup'', H)]"
    using run due absent_filter [OF assms(1), of "due cur"]
    by (simp add: scheduler_loop_dispatch dispatch_of_key ts)
  from after fields once show ?thesis by simp
qed

theorem cleanup_scenario_witness:
  "map_of (tasks (init\<lparr>is_running := True\<rparr>)) ''cleanup'' = None \<and> is_running (init\<lparr>is_running := True\<rparr>) \<and>
   (0::int) \<le> 5000000 \<and> no_overflow 7000000 86400 \<and>
   (\<exists>t. map_of (tasks (fst (scheduler_loop 5000000
        (\<lambda>k. \<lparr>started = 5000000, outcome = Returned (PyDict [(''deleted'', PyInt 5)]), finished = 7000000\<rparr>)
        (fst (schedule_task 0 ''cleanup'' 7 0 (Some 86400) None LOW (init\<lparr>is_running := True\<rparr>)))))) ''cleanup'' = Some t \<and>
      run_count t = 1 \<and> status t = PENDING \<and> next_run t = 86407000000 \<and>
      last_result t = PyDict [(''deleted'', PyInt 5)])"
  using cleanup_scenario [of "init\<lparr>is_running := True\<rparr>" 0 5000000
      "\<lambda>k. \<lparr>started = 5000000, outcome = Returned (PyDict [(''deleted'', PyInt 5)]), finished = 7000000\<rparr>"
      0 7 LOW]
  by (simp add: init_def no_overflow_eval seconds_def)

text \<open>
  As the specification words it, the claim fails: with \<open>T0 = 0\<close>, an iteration 5
  seconds later and a handler that has returned 7 seconds after \<open>T0\<close>, \<^verbatim>\<open>next_run\<close> is
  86407 seconds after \<open>T0\<close>, not 86400.
\<close>

theorem cleanup_scenario_counterexample:
  "map_of (tasks (init\<lparr>is_running := True\<rparr>)) ''cleanup'' = None \<and> (0::int) \<le> 5000000 \<and>
   map_option (\<lambda>t. (run_count t, status t, last_result t, next_run t))
     (map_of (tasks (fst (scheduler_loop 5000000
        (\<lambda>k. \<lparr>started = 5000000, outcome = Returned (PyDict [(''deleted'', PyInt 5)]), finished = 7000000\<rparr>)
        (fst (schedule_task 0 ''cleanup'' 7 0 (Some 86400) None LOW (init\<lparr>is_running := True\<rparr>)))))) ''cleanup'')
     = Some (1, PENDING, PyDict [(''deleted'', PyInt 5)], 7000000 + seconds 86400) \<and>
   7000000 + seconds 86400 \<noteq> 0 + seconds 86400"
  by (simp add: run_simps init_def seconds_def)

text \<open>
  Claim C8, amended. \<^verbatim>\<open>cancel_task\<close> on a \<^verbatim>\<open>PENDING\<close> task returns \<^verbatim>\<open>True\<close>, and the
  task is \<^verbatim>\<open>CANCELLED\<close> at once. When no execution of the task is in flight at that
  moment, no iteration of the loop dispatches it through any sequence of steps in which
  no caller wakes it, which \<^verbatim>\<open>resume_task\<close>, \<^verbatim>\<open>reschedule_task\<close> and
  \<^verbatim>\<open>force_run_task\<close> on its id do.
\<close>

theorem cancel_stops_dispatch:
  assumes "map_of (tasks (svc s)) tid = Some t" and "status t = PENDING" and "\<not> in_flight tid s"
  shows "snd (cancel_task tid (svc s)) \<and>
         map_of (tasks (svc (fst (fire (Call (Cancel tid)) s)))) tid = Some (t\<lparr>status := CANCELLED\<rparr>) \<and>
         (\<not> list_ex (disturbs CANCELLED tid) es \<longrightarrow>
            tid \<notin> fst ` set (snd (trace es (fst (fire (Call (Cancel tid)) s)))))"
proof -
  let ?s = "fst (fire (Call (Cancel tid)) s)"
  have ret: "snd (cancel_task tid (svc s))"
    and rec: "map_of (tasks (svc ?s)) tid = Some (t\<lparr>status := CANCELLED\<rparr>)"
    using assms(1) by (simp_all add: cancel_task_def map_of_update_task)
  have all: "all_status tid CANCELLED (tasks (svc ?s))"
    using assms(1) by (auto simp: cancel_task_def all_status_iff update_task_map)
  have quiet: "\<not> in_flight tid ?s"
    using assms(3) by (simp add: in_flight_def)
  have "tid \<notin> fst ` set (snd (trace es ?s))" if "\<not> list_ex (disturbs CANCELLED tid) es"
    using trace_frozen [of CANCELLED ?s tid es] rec all quiet that by simp
  with ret rec show ?thesis by blast
qed

theorem cancel_stops_dispatch_witness:
  "map_of (tasks (svc mid_tick)) ''other'' = Some other \<and> status other = PENDING \<and>
   \<not> in_flight ''other'' mid_tick \<and>
   snd (cancel_task ''other'' (svc mid_tick)) \<and>
   map_of (tasks (svc (fst (fire (Call (Cancel ''other'')) mid_tick)))) ''other''
     = Some (other\<lparr>status := CANCELLED\<rparr>) \<and>
   \<not> list_ex (disturbs CANCELLED ''other'')
       [LoopEnd (Caught (Returned PyNone)) 1 2, Call (Pause ''other''), Wake 100000000 100000000,
        LoopEnd (Caught (Returned PyNone)) 100000001 100000002, Call (Cancel ''other'')] \<and>
   ''other'' \<notin> fst ` set (snd (trace
       [LoopEnd (Caught (Returned PyNone)) 1 2, Call (Pause ''other''), Wake 100000000 100000000,
        LoopEnd (Caught (Returned PyNone)) 100000001 100000002, Call (Cancel ''other'')]
       (fst (fire (Call (Cancel ''other'')) mid_tick)))) \<and>
   snd (trace
       [LoopEnd (Caught (Returned PyNone)) 1 2, Call (Pause ''other''), Wake 100000000 100000000,
        LoopEnd (Caught (Returned PyNone)) 100000001 100000002, Call (Cancel ''other'')]
       (fst (fire (Call (Cancel ''other'')) mid_tick))) = [(''job'', 7)]"
  using cancel_stops_dispatch [where s = mid_tick and tid = "''other''" and t = other
      and es = "[LoopEnd (Caught (Returned PyNone)) 1 2, Call (Pause ''other''), Wake 100000000 100000000,
        LoopEnd (Caught (Returned PyNone)) 100000001 100000002, Call (Cancel ''other'')]"]
  by (simp add: mid_tick_def pair_def job_def other_def in_flight_def run_simps)

text \<open>
  As the specification words it, the claim fails: after the cancellation
  \<^verbatim>\<open>force_run_task\<close> runs the executor on the task and, the task having an interval,
  leaves it \<^verbatim>\<open>PENDING\<close>; the next iteration of the loop dispatches it, with no call of
  \<^verbatim>\<open>resume_task\<close> or \<^verbatim>\<open>reschedule_task\<close>.
\<close>

theorem cancelled_task_forced_counterexample:
  "map_of (tasks (svc (idle (service (job PENDING (Some 60) None))))) ''job'' = Some (job PENDING (Some 60) None) \<and>
   status (job PENDING (Some 60) None) = PENDING \<and>
   \<not> in_flight ''job'' (idle (service (job PENDING (Some 60) None))) \<and>
   snd (cancel_task ''job'' (svc (idle (service (job PENDING (Some 60) None))))) \<and>
   \<not> list_ex (is_resume_or_reschedule ''job'')
       [Call (ForceRun (one_run (Returned PyNone) ''job'') ''job''), Wake 60000000 60000000] \<and>
   snd (trace [Call (ForceRun (one_run (Returned PyNone) ''job'') ''job''), Wake 60000000 60000000]
     (fst (fire (Call (Cancel ''job'')) (idle (service (job PENDING (Some 60) None)))))) = [(''job'', 7)]"
  by (simp add: service_def job_def one_run_def in_flight_def run_simps)

text \<open>
  Claim C9. No operation of the service lowers the \<^verbatim>\<open>run_count\<close> of a registered task:
  after \<^verbatim>\<open>schedule_task\<close>, \<^verbatim>\<open>cancel_task\<close>, \<^verbatim>\<open>pause_task\<close>, \<^verbatim>\<open>resume_task\<close>,
  \<^verbatim>\<open>reschedule_task\<close>, \<^verbatim>\<open>force_run_task\<close> or an iteration of the loop, the task is
  still registered and its count is at least what it was.
\<close>

theorem run_count_monotone:
  assumes "map_of (tasks s) tid = Some t"
  shows "\<exists>t'. map_of (tasks (apply_op x s)) tid = Some t' \<and> run_count t \<le> run_count t'"
proof (cases x)
  case (Schedule now k h st iv mr pr)
  with assms show ?thesis
    by (auto simp: schedule_task_def map_add_def split: option.splits)
next
  case (Cancel k)
  with assms show ?thesis
    by (auto simp: cancel_task_def map_of_update_task split: option.splits)
next
  case (Pause k)
  with assms show ?thesis
    by (auto simp: pause_task_def map_of_update_task split: option.splits)
next
  case (Resume now k st)
  with assms show ?thesis
    by (auto simp: resume_task_def map_of_update_task split: option.splits sum.splits)
next
  case (Reschedule k st iv)
  let ?f = "\<lambda>t. (case iv of
                   None \<Rightarrow> t\<lparr>next_run := st\<rparr>
                 | Some i \<Rightarrow>
                     if i \<noteq> 0 then t\<lparr>next_run := st, interval_seconds := Some i\<rparr>
                     else t\<lparr>next_run := st\<rparr>)\<lparr>status := PENDING\<rparr>"
  have same: "run_count (?f t) = run_count t"
    by (simp split: option.splits)
  have "map_of (tasks (apply_op x s)) tid = Some (if tid = k then ?f t else t)"
    using assms Reschedule
    by (cases "map_of (tasks s) k") (auto simp add: reschedule_task_def map_of_update_task)
  with same show ?thesis
    by (cases "tid = k") simp_all
next
  case (ForceRun r k)
  with assms show ?thesis
    by (auto simp: force_run_task_eq map_of_update_task execute_task_run_count split: option.splits)
next
  case (Tick cur env)
  with assms show ?thesis
    by (auto simp: scheduler_loop_tasks map_of_scan execute_task_run_count)
qed

theorem run_count_monotone_witness:
  "map_of (tasks (service (job PENDING None None))) ''job'' = Some (job PENDING None None) \<and>
   (\<exists>t'. map_of (tasks (apply_op (Tick 0 (one_run (Returned PyNone))) (service (job PENDING None None)))) ''job'' = Some t' \<and>
         run_count (job PENDING None None) \<le> run_count t')"
proof -
  have h: "map_of (tasks (service (job PENDING None None))) ''job'' = Some (job PENDING None None)"
    by (simp add: service_def job_def)
  from h run_count_monotone [OF h, of "Tick 0 (one_run (Returned PyNone))"]
  show ?thesis by simp
qed

text \<open>
  Claim C10. \<^verbatim>\<open>force_run_task\<close> returns \<^verbatim>\<open>False\<close> exactly when the id is unknown, and
  then before any \<^verbatim>\<open>await\<close>. For every registered task, whatever its status and its
  \<^verbatim>\<open>next_run\<close>, the executor writes the status \<^verbatim>\<open>RUNNING\<close> and the start time and
  awaits the handler of the record. When the handler has ended, \<^verbatim>\<open>force_run_task\<close>
  returns \<^verbatim>\<open>True\<close>, the handler has been awaited once, and the record carries the
  outcome: a returned value is stored and \<^verbatim>\<open>run_count\<close> is one more than before, an
  exception gives \<^verbatim>\<open>FAILED\<close> with its message, a cancellation gives \<^verbatim>\<open>CANCELLED\<close>.
\<close>

theorem force_run_task_contract:
  "(\<not> fst (snd (force_run_task r tid s)) \<longleftrightarrow> map_of (tasks s) tid = None) \<and>
   (snd (force_run_begin now tid s) = None \<longleftrightarrow> map_of (tasks s) tid = None) \<and>
   (map_of (tasks s) tid = Some t \<longrightarrow>
      snd (force_run_begin now tid s) = Some (handler t) \<and>
      map_of (tasks (fst (force_run_begin now tid s))) tid
        = Some (t\<lparr>status := RUNNING, last_run := Some now\<rparr>) \<and>
      snd (snd (force_run_task r tid s)) = [(tid, handler t)] \<and>
      (\<exists>t'. map_of (tasks (fst (force_run_task r tid s))) tid = Some t' \<and>
         last_run t' = Some (started r) \<and>
         (\<forall>v. outcome r = Returned v \<longrightarrow>
            last_result t' = v \<and> run_count t' = run_count t + 1 \<and> status t' \<noteq> RUNNING) \<and>
         (\<forall>msg. outcome r = Raised msg \<longrightarrow>
            status t' = FAILED \<and> last_error t' = Some (HandlerError msg)) \<and>
         (outcome r = Cancelled \<longrightarrow> status t' = CANCELLED)))"
proof (intro conjI impI)
  show "(\<not> fst (snd (force_run_task r tid s))) = (map_of (tasks s) tid = None)"
    by (simp add: force_run_task_def force_run_begin_def split: option.splits)
  show "(snd (force_run_begin now tid s) = None) = (map_of (tasks s) tid = None)"
    by (simp add: force_run_begin_def split: option.splits)
next
  assume h: "map_of (tasks s) tid = Some t"
  then show "snd (force_run_begin now tid s) = Some (handler t)"
    and "map_of (tasks (fst (force_run_begin now tid s))) tid
        = Some (t\<lparr>status := RUNNING, last_run := Some now\<rparr>)"
    and "snd (snd (force_run_task r tid s)) = [(tid, handler t)]"
    by (simp_all add: force_run_task_def force_run_begin_def begin_task_def map_of_update_task)
  let ?t = "finish_task (outcome r) (finished r) (t\<lparr>status := RUNNING, last_run := Some (started r)\<rparr>)"
  have rec: "map_of (tasks (fst (force_run_task r tid s))) tid = Some ?t"
    using h
    by (simp add: force_run_task_def force_run_begin_def write_back_def begin_task_def
          map_of_update_task)
  have "last_run ?t = Some (started r)"
    by (simp add: finish_task_def Let_def split: outcome.splits sum.splits)
  moreover have "\<forall>v. outcome r = Returned v \<longrightarrow>
      last_result ?t = v \<and> run_count ?t = run_count t + 1 \<and> status ?t \<noteq> RUNNING"
    by (simp add: finish_task_def Let_def split: sum.splits)
  moreover have "\<forall>msg. outcome r = Raised msg \<longrightarrow>
      status ?t = FAILED \<and> last_error ?t = Some (HandlerError msg)"
    by (simp add: finish_task_def)
  moreover have "outcome r = Cancelled \<longrightarrow> status ?t = CANCELLED"
    by (simp add: finish_task_def)
  ultimately
  show "\<exists>t'. map_of (tasks (fst (force_run_task r tid s))) tid = Some t' \<and>
         last_run t' = Some (started r) \<and>
         (\<forall>v. outcome r = Returned v \<longrightarrow>
            last_result t' = v \<and> run_count t' = run_count t + 1 \<and> status t' \<noteq> RUNNING) \<and>
         (\<forall>msg. outcome r = Raised msg \<longrightarrow>
            status t' = FAILED \<and> last_error t' = Some (HandlerError msg)) \<and>
         (outcome r = Cancelled \<longrightarrow> status t' = CANCELLED)"
    using rec by blast
qed

theorem force_run_task_contract_witness:
  "map_of (tasks (service (job CANCELLED (Some 60) None))) ''job'' = Some (job CANCELLED (Some 60) None) \<and>
   force_run_begin 3 ''job'' (service (job CANCELLED (Some 60) None))
     = (service ((job RUNNING (Some 60) None)\<lparr>last_run := Some 3\<rparr>), Some 7) \<and>
   force_run_task \<lparr>started = 3, outcome = Returned (PyInt 1), finished = 4\<rparr> ''job''
       (service (job CANCELLED (Some 60) None))
     = (service ((job PENDING (Some 60) None)
          \<lparr>next_run := 60000004, run_count := 1, last_run := Some 3, last_result := PyInt 1\<rparr>),
        True, [(''job'', 7)]) \<and>
   map_of (tasks (service (job CANCELLED (Some 60) None))) ''nope'' = None \<and>
   \<not> fst (snd (force_run_task \<lparr>started = 3, outcome = Returned (PyInt 1), finished = 4\<rparr> ''nope''
       (service (job CANCELLED (Some 60) None)))) \<and>
   snd (force_run_begin 3 ''nope'' (service (job CANCELLED (Some 60) None))) = None"
  using force_run_task_contract [where r = "\<lparr>started = 3, outcome = Returned (PyInt 1), finished = 4\<rparr>"
      and tid = "''job''" and s = "service (job CANCELLED (Some 60) None)" and now = 3
      and t = "job CANCELLED (Some 60) None"]
    force_run_task_contract [where r = "\<lparr>started = 3, outcome = Returned (PyInt 1), finished = 4\<rparr>"
      and tid = "''nope''" and s = "service (job CANCELLED (Some 60) None)" and now = 3
      and t = "job CANCELLED (Some 60) None"]
  by (simp add: service_def job_def run_simps)

end
